theory Spec2Isabelle
  imports Complex_Main
begin

section \<open>Strings\<close>

text \<open>
  Strings are lists of 8-bit characters. \<open>toLowerCase\<close> maps the letters \<open>A\<close> to \<open>Z\<close> onto
  \<open>a\<close> to \<open>z\<close> and leaves every other character as it is (the case mapping of characters
  outside ASCII is not modelled); \<open>includes_str\<close> is the substring test of
  \<^verbatim>\<open>String.prototype.includes\<close>.
\<close>

definition toLowerCase_char :: "char \<Rightarrow> char" where
  "toLowerCase_char c =
     (let n = (of_char c :: nat) in if 65 \<le> n \<and> n \<le> 90 then char_of (n + 32) else c)"

definition toLowerCase :: "string \<Rightarrow> string" where
  "toLowerCase s = map toLowerCase_char s"

fun startsWith :: "string \<Rightarrow> string \<Rightarrow> bool" where
  "startsWith s [] = True"
| "startsWith [] (k # ks) = False"
| "startsWith (c # cs) (k # ks) = (c = k \<and> startsWith cs ks)"

fun includes_str :: "string \<Rightarrow> string \<Rightarrow> bool" where
  "includes_str [] k = (k = [])"
| "includes_str (c # cs) k = (startsWith (c # cs) k \<or> includes_str cs k)"

section \<open>Provider capability detector\<close>

text \<open>
  \<^verbatim>\<open>function isReasoningModel(modelName: string | undefined): boolean\<close>.
  The argument is \<open>None\<close> for \<^verbatim>\<open>undefined\<close>; the empty string is falsy as well.
\<close>

definition isReasoningModel :: "string option \<Rightarrow> bool" where
  "isReasoningModel modelName =
     (case modelName of
        None \<Rightarrow> False
      | Some name \<Rightarrow>
          if name = [] then False
          else (let lowerName = toLowerCase name in
                  includes_str lowerName ''o1'' \<or>
                  includes_str lowerName ''reasoning'' \<or>
                  includes_str lowerName ''gpt-oss'' \<or>
                  includes_str lowerName ''deepseek-r1''))"

section \<open>Data model\<close>

datatype provider = OpenAI | LMStudio | GPT4All | Ollama

datatype effort = Low | Medium | High

text \<open>\<^verbatim>\<open>type ApiConfig\<close>; an optional field is \<open>None\<close> when it is \<^verbatim>\<open>undefined\<close>.\<close>

record ApiConfig =
  endpoint :: string
  apiKey :: string
  provider :: provider
  model :: "string option"
  reasoningEffort :: "effort option"

text \<open>
  A decoded JSON value, as \<^verbatim>\<open>res.json()\<close> returns it. Numbers are exact rationals:
  the rounding and the overflow of IEEE doubles are outside this model. An object is the
  list of its properties (one entry per key). A \<open>jsval\<close> is a JSON value or
  \<^verbatim>\<open>undefined\<close> (\<open>None\<close>).
\<close>

datatype json =
    JNull
  | JBool bool
  | JNum rat
  | JStr string
  | JArr "json list"
  | JObj "(string \<times> json) list"

type_synonym jsval = "json option"

text \<open>A JavaScript number that is the result of arithmetic.\<close>

datatype js_number = Num rat | NaN | PosInfinity | NegInfinity

text \<open>A thrown value: an error object with its \<^verbatim>\<open>name\<close> and \<^verbatim>\<open>message\<close>.\<close>

datatype js_error = JsError string string

definition new_Error :: "string \<Rightarrow> js_error" where
  "new_Error msg = JsError ''Error'' msg"

definition TypeError :: "string \<Rightarrow> js_error" where
  "TypeError msg = JsError ''TypeError'' msg"

text \<open>\<^verbatim>\<open>String(e)\<close> for an error object (\<^verbatim>\<open>Error.prototype.toString\<close>).\<close>

fun String_of_error :: "js_error \<Rightarrow> string" where
  "String_of_error (JsError name msg) =
     (if name = [] then msg else if msg = [] then name else name @ '': '' @ msg)"

text \<open>\<^verbatim>\<open>type Message\<close>. The content is the JavaScript value the code stores there.\<close>

record Message =
  role :: string
  content :: json
  msg_model :: "string option"
  msg_provider :: "provider option"
  msg_reasoningEffort :: "effort option"
  tokensPerSecond :: "js_number option"
  timestamp :: "int option"

text \<open>\<^verbatim>\<open>type ChatSession\<close>.\<close>

record ChatSession =
  session_id :: string
  title :: json
  session_messages :: "Message list"
  createdAt :: int
  updatedAt :: int

text \<open>\<^verbatim>\<open>type ModelInfo\<close>.\<close>

record ModelInfo =
  info_id :: string
  supportsReasoning :: bool

text \<open>
  What the platform and the host supply: the translation \<^verbatim>\<open>t('error')\<close>,
  \<^verbatim>\<open>JSON.stringify\<close>, and the numeric coercion of a string, an array or an object
  (which may throw).
\<close>

record platform =
  t_error :: string
  JSON_stringify :: "json \<Rightarrow> string"
  ToNumber_object :: "json \<Rightarrow> js_error + js_number"

section \<open>JavaScript values\<close>

text \<open>Truthiness of a value.\<close>

fun truthy :: "jsval \<Rightarrow> bool" where
  "truthy None = False"
| "truthy (Some JNull) = False"
| "truthy (Some (JBool b)) = b"
| "truthy (Some (JNum r)) = (r \<noteq> 0)"
| "truthy (Some (JStr s)) = (s \<noteq> [])"
| "truthy (Some (JArr xs)) = True"
| "truthy (Some (JObj kvs)) = True"

text \<open>
  \<^verbatim>\<open>v.key\<close> for a value \<open>v\<close> that is not \<^verbatim>\<open>undefined\<close>, for the property names the program
  reads (none of them is a built-in property of a string, an array, a number or a boolean):
  reading a property of \<^verbatim>\<open>null\<close> throws.
\<close>

fun get_prop :: "json \<Rightarrow> string \<Rightarrow> js_error + jsval" where
  "get_prop JNull key =
     Inl (TypeError (''Cannot read properties of null (reading '' @ [CHR 0x27] @ key @ [CHR 0x27] @ '')''))"
| "get_prop (JObj kvs) key = Inr (map_of kvs key)"
| "get_prop v key = Inr None"

text \<open>\<^verbatim>\<open>x?.key\<close>: \<^verbatim>\<open>undefined\<close> when \<open>x\<close> is \<^verbatim>\<open>undefined\<close> or \<^verbatim>\<open>null\<close>.\<close>

fun opt_get :: "jsval \<Rightarrow> string \<Rightarrow> jsval" where
  "opt_get None key = None"
| "opt_get (Some JNull) key = None"
| "opt_get (Some (JObj kvs)) key = map_of kvs key"
| "opt_get (Some v) key = None"

text \<open>\<^verbatim>\<open>x?.[0]\<close>.\<close>

fun opt_index0 :: "jsval \<Rightarrow> jsval" where
  "opt_index0 None = None"
| "opt_index0 (Some JNull) = None"
| "opt_index0 (Some (JArr xs)) = (case xs of [] \<Rightarrow> None | x # _ \<Rightarrow> Some x)"
| "opt_index0 (Some (JStr s)) = (case s of [] \<Rightarrow> None | c # _ \<Rightarrow> Some (JStr [c]))"
| "opt_index0 (Some (JObj kvs)) = map_of kvs ''0''"
| "opt_index0 (Some v) = None"

text \<open>\<^verbatim>\<open>x || d\<close>.\<close>

definition js_or :: "jsval \<Rightarrow> json \<Rightarrow> json" where
  "js_or x d = (case x of None \<Rightarrow> d | Some v \<Rightarrow> if truthy (Some v) then v else d)"

text \<open>The numeric value of a truthy or falsy JSON value in an arithmetic expression.\<close>

fun ToNumber :: "platform \<Rightarrow> json \<Rightarrow> js_error + js_number" where
  "ToNumber plat JNull = Inr (Num 0)"
| "ToNumber plat (JBool b) = Inr (Num (if b then 1 else 0))"
| "ToNumber plat (JNum r) = Inr (Num r)"
| "ToNumber plat v = ToNumber_object plat v"

text \<open>\<^verbatim>\<open>n / e\<close> for a number \<open>n\<close> and a finite divisor \<open>e\<close>.\<close>

fun js_divide :: "js_number \<Rightarrow> rat \<Rightarrow> js_number" where
  "js_divide (Num r) e =
     (if e \<noteq> 0 then Num (r / e)
      else if r = 0 then NaN else if 0 < r then PosInfinity else NegInfinity)"
| "js_divide NaN e = NaN"
| "js_divide PosInfinity e = (if e < 0 then NegInfinity else PosInfinity)"
| "js_divide NegInfinity e = (if e < 0 then PosInfinity else NegInfinity)"

text \<open>The decimal digits of a natural number (an HTTP status in a template string).\<close>

function String_of_nat :: "nat \<Rightarrow> string" where
  "String_of_nat n =
     (if n < 10 then [char_of (48 + n)]
      else String_of_nat (n div 10) @ [char_of (48 + n mod 10)])"
  by pat_completeness auto
termination
  by (relation "measure (\<lambda>n. n)") auto

declare String_of_nat.simps [simp del]

section \<open>Conversation controller: building the request\<close>

text \<open>One entry of the \<^verbatim>\<open>messages\<close> array of a request body: \<^verbatim>\<open>{ role, content }\<close>.\<close>

record ApiMessage =
  api_role :: string
  api_content :: json

text \<open>
  \<^verbatim>\<open>requestBody\<close>; an optional field that the object literal leaves out is \<open>None\<close>.
\<close>

record RequestBody =
  rb_model :: string
  rb_messages :: "ApiMessage list"
  stream :: "bool option"
  think :: "effort option"
  reasoning_effort :: "effort option"

text \<open>The call \<^verbatim>\<open>fetch(endpoint, { method, headers, body })\<close>.\<close>

record HttpRequest =
  url :: string
  http_method :: string
  headers :: "(string \<times> string) list"
  body :: RequestBody

text \<open>The state of the \<^verbatim>\<open>Chat\<close> component that \<^verbatim>\<open>sendMessage\<close> reads and writes.\<close>

record ChatState =
  messages :: "Message list"
  input :: string
  loading :: bool
  currentSessionId :: string

text \<open>\<^verbatim>\<open>config.model || d\<close>.\<close>

definition model_or :: "ApiConfig \<Rightarrow> string \<Rightarrow> string" where
  "model_or config d = (case model config of None \<Rightarrow> d | Some m \<Rightarrow> if m = [] then d else m)"

definition chatEndpoint :: "ApiConfig \<Rightarrow> string" where
  "chatEndpoint config =
     (if provider config = Ollama then endpoint config @ ''/api/chat''
      else if provider config = GPT4All then ''/api/gpt4all/v1/chat/completions''
      else endpoint config @ ''/v1/chat/completions'')"

definition apiMessages :: "string \<Rightarrow> Message list \<Rightarrow> string \<Rightarrow> ApiMessage list" where
  "apiMessages systemPrompt msgs userInput =
     (if systemPrompt \<noteq> [] then [\<lparr>api_role = ''system'', api_content = JStr systemPrompt\<rparr>] else [])
     @ map (\<lambda>m. \<lparr>api_role = role m, api_content = content m\<rparr>) msgs
     @ [\<lparr>api_role = ''user'', api_content = JStr userInput\<rparr>]"

text \<open>\<^verbatim>\<open>shouldUseReasoning && config.reasoningEffort ? config.reasoningEffort : undefined\<close>.\<close>

definition usedEffort :: "ApiConfig \<Rightarrow> effort option" where
  "usedEffort config =
     (if isReasoningModel (model config) \<and> reasoningEffort config \<noteq> None
      then reasoningEffort config else None)"

definition requestBody :: "ApiConfig \<Rightarrow> ApiMessage list \<Rightarrow> RequestBody" where
  "requestBody config msgs =
     (if provider config = Ollama then
        \<lparr>rb_model = model_or config ''llama2'', rb_messages = msgs, stream = Some False,
         think = usedEffort config, reasoning_effort = None\<rparr>
      else if provider config = GPT4All then
        \<lparr>rb_model = model_or config ''gpt-3.5-turbo'', rb_messages = msgs, stream = None,
         think = None, reasoning_effort = None\<rparr>
      else
        \<lparr>rb_model = model_or config ''gpt-3.5-turbo'', rb_messages = msgs, stream = None,
         think = None, reasoning_effort = usedEffort config\<rparr>)"

definition requestHeaders :: "ApiConfig \<Rightarrow> (string \<times> string) list" where
  "requestHeaders config =
     (''Content-Type'', ''application/json'')
     # (if apiKey config \<noteq> [] then [(''Authorization'', ''Bearer '' @ apiKey config)] else [])"

definition chatRequest :: "ApiConfig \<Rightarrow> string \<Rightarrow> Message list \<Rightarrow> string \<Rightarrow> HttpRequest" where
  "chatRequest config systemPrompt msgs userInput =
     \<lparr>url = chatEndpoint config, http_method = ''POST'', headers = requestHeaders config,
      body = requestBody config (apiMessages systemPrompt msgs userInput)\<rparr>"

definition userMessage :: "string \<Rightarrow> int \<Rightarrow> Message" where
  "userMessage userInput now =
     \<lparr>role = ''user'', content = JStr userInput, msg_model = None, msg_provider = None,
      msg_reasoningEffort = None, tokensPerSecond = None, timestamp = Some now\<rparr>"

text \<open>
  \<^verbatim>\<open>sendMessage\<close> up to the point where it waits for \<^verbatim>\<open>fetch\<close>: the guard, the three
  state updates, and the request it issues (\<open>None\<close> when it returns at the guard).
  \<open>now\<close> is the reading of \<^verbatim>\<open>Date.now()\<close> for the user message. The request is built from
  the \<^verbatim>\<open>messages\<close> of the render that created the closure, that is, without the new
  user message.
\<close>

definition sendMessage_begin ::
  "ApiConfig \<Rightarrow> string \<Rightarrow> int \<Rightarrow> ChatState \<Rightarrow> ChatState \<times> HttpRequest option" where
  "sendMessage_begin config systemPrompt now s =
     (if input s = [] \<or> loading s then (s, None)
      else
        (s\<lparr>input := [], loading := True,
           messages := messages s @ [userMessage (input s) now]\<rparr>,
         Some (chatRequest config systemPrompt (messages s) (input s))))"

section \<open>Conversation controller: reading the response\<close>

text \<open>
  What \<^verbatim>\<open>await fetch(...)\<close> gives: a rejection, or a response with its status and the
  results of \<^verbatim>\<open>res.text()\<close> and \<^verbatim>\<open>res.json()\<close> (each may throw).
\<close>

record HttpResponse =
  status :: nat
  statusText :: string
  text_body :: "js_error + string"
  json_body :: "js_error + json"

datatype fetch_outcome = Rejected js_error | Resolved HttpResponse

definition ok :: "HttpResponse \<Rightarrow> bool" where
  "ok res = (200 \<le> status res \<and> status res \<le> 299)"

text \<open>The content of the reply: \<^verbatim>\<open>aiMsg\<close>.\<close>

definition aiMsg :: "ApiConfig \<Rightarrow> json \<Rightarrow> js_error + json" where
  "aiMsg config data =
     (if provider config = Ollama then
        (case get_prop data ''message'' of
           Inl e \<Rightarrow> Inl e
         | Inr m \<Rightarrow> Inr (js_or (opt_get m ''content'') (JStr ''(no response)'')))
      else
        (case get_prop data ''choices'' of
           Inl e \<Rightarrow> Inl e
         | Inr ch \<Rightarrow>
             Inr (js_or (opt_get (opt_get (opt_index0 ch) ''message'') ''content'')
                    (JStr ''(no response)''))))"

text \<open>The token count: \<^verbatim>\<open>totalTokens\<close>.\<close>

definition totalTokens :: "ApiConfig \<Rightarrow> json \<Rightarrow> js_error + jsval" where
  "totalTokens config data =
     (if provider config = Ollama then get_prop data ''eval_count''
      else (case get_prop data ''usage'' of
              Inl e \<Rightarrow> Inl e
            | Inr u \<Rightarrow> Inr (opt_get u ''total_tokens'')))"

text \<open>
  \<^verbatim>\<open>totalTokens && elapsedSeconds > 0 ? totalTokens / elapsedSeconds : undefined\<close>.
\<close>

definition tokensPerSecond_of :: "platform \<Rightarrow> jsval \<Rightarrow> rat \<Rightarrow> js_error + js_number option" where
  "tokensPerSecond_of plat tokens elapsedSeconds =
     (case tokens of
        None \<Rightarrow> Inr None
      | Some v \<Rightarrow>
          if truthy (Some v) \<and> 0 < elapsedSeconds then
            (case ToNumber plat v of
               Inl e \<Rightarrow> Inl e
             | Inr n \<Rightarrow> Inr (Some (js_divide n elapsedSeconds)))
          else Inr None)"

definition usedModel :: "ApiConfig \<Rightarrow> string" where
  "usedModel config =
     model_or config (if provider config = Ollama then ''llama2'' else ''gpt-3.5-turbo'')"

definition elapsedSeconds :: "int \<Rightarrow> int \<Rightarrow> rat" where
  "elapsedSeconds startTime endTime = of_int (endTime - startTime) / 1000"

text \<open>
  The rest of the \<^verbatim>\<open>try\<close> block, from the result of \<^verbatim>\<open>fetch\<close> to the assistant message;
  \<open>Inl e\<close> when it throws \<open>e\<close>.
\<close>

definition tryResponse ::
  "platform \<Rightarrow> ApiConfig \<Rightarrow> int \<Rightarrow> int \<Rightarrow> fetch_outcome \<Rightarrow> js_error + Message" where
  "tryResponse plat config startTime endTime outcome =
     (case outcome of
        Rejected e \<Rightarrow> Inl e
      | Resolved res \<Rightarrow>
          if \<not> ok res then
            (case text_body res of
               Inl e \<Rightarrow> Inl e
             | Inr errorText \<Rightarrow>
                 Inl (new_Error (''HTTP '' @ String_of_nat (status res) @ '': '' @ errorText)))
          else
            (case json_body res of
               Inl e \<Rightarrow> Inl e
             | Inr data \<Rightarrow>
                 (case aiMsg config data of
                    Inl e \<Rightarrow> Inl e
                  | Inr c \<Rightarrow>
                      (case totalTokens config data of
                         Inl e \<Rightarrow> Inl e
                       | Inr tokens \<Rightarrow>
                           (case tokensPerSecond_of plat tokens (elapsedSeconds startTime endTime) of
                              Inl e \<Rightarrow> Inl e
                            | Inr tps \<Rightarrow>
                                Inr \<lparr>role = ''assistant'', content = c,
                                     msg_model = Some (usedModel config),
                                     msg_provider = Some (provider config),
                                     msg_reasoningEffort = usedEffort config,
                                     tokensPerSecond = tps,
                                     timestamp = Some endTime\<rparr>)))))"

text \<open>The message of the \<^verbatim>\<open>catch\<close> block.\<close>

definition errorMessage :: "platform \<Rightarrow> ApiConfig \<Rightarrow> js_error \<Rightarrow> int \<Rightarrow> Message" where
  "errorMessage plat config e now =
     \<lparr>role = ''assistant'', content = JStr (t_error plat @ String_of_error e),
      msg_model = Some (usedModel config), msg_provider = Some (provider config),
      msg_reasoningEffort = None, tokensPerSecond = None, timestamp = Some now\<rparr>"

text \<open>The readings of \<^verbatim>\<open>Date.now()\<close> during one send, in the order of the calls.\<close>

record clock =
  t_user :: int
  t_start :: int
  t_end :: int
  t_catch :: int

text \<open>
  \<^verbatim>\<open>sendMessage\<close> from the moment \<^verbatim>\<open>fetch\<close> settles: one message is appended to the
  messages of that moment, by the \<^verbatim>\<open>try\<close> block or by the \<^verbatim>\<open>catch\<close> block, and
  \<^verbatim>\<open>loading\<close> is reset.
\<close>

definition sendMessage_finish ::
  "platform \<Rightarrow> ApiConfig \<Rightarrow> clock \<Rightarrow> fetch_outcome \<Rightarrow> ChatState \<Rightarrow> ChatState" where
  "sendMessage_finish plat config clk outcome s =
     (let reply = (case tryResponse plat config (t_start clk) (t_end clk) outcome of
                     Inr m \<Rightarrow> m
                   | Inl e \<Rightarrow> errorMessage plat config e (t_catch clk))
      in s\<lparr>messages := messages s @ [reply], loading := False\<rparr>)"

text \<open>A whole call of \<^verbatim>\<open>sendMessage\<close> with no other event in between.\<close>

definition sendMessage ::
  "platform \<Rightarrow> ApiConfig \<Rightarrow> string \<Rightarrow> clock \<Rightarrow> fetch_outcome \<Rightarrow> ChatState \<Rightarrow> ChatState" where
  "sendMessage plat config systemPrompt clk outcome s =
     (case sendMessage_begin config systemPrompt (t_user clk) s of
        (s', None) \<Rightarrow> s'
      | (s', Some req) \<Rightarrow> sendMessage_finish plat config clk outcome s')"

section \<open>Chat session store\<close>

text \<open>The object store \<^verbatim>\<open>sessions\<close>, keyed by the session id.\<close>

type_synonym store = "string \<rightharpoonup> ChatSession"

text \<open>\<^verbatim>\<open>saveChatSession\<close>: \<^verbatim>\<open>put\<close> inserts the record or replaces the one with the same key.\<close>

definition saveChatSession :: "ChatSession \<Rightarrow> store \<Rightarrow> store" where
  "saveChatSession session db = db(session_id session \<mapsto> session)"

text \<open>
  \<^verbatim>\<open>messages.find(m => m.role === 'user')?.content.slice(0, 50) || 'New Chat'\<close>.
\<close>

definition sessionTitle :: "Message list \<Rightarrow> js_error + json" where
  "sessionTitle msgs =
     (case find (\<lambda>m. role m = ''user'') msgs of
        None \<Rightarrow> Inr (JStr ''New Chat'')
      | Some m \<Rightarrow>
          (case content m of
             JStr s \<Rightarrow> Inr (JStr (if take 50 s = [] then ''New Chat'' else take 50 s))
           | JArr xs \<Rightarrow> Inr (JArr (take 50 xs))
           | JNull \<Rightarrow>
               Inl (TypeError (''Cannot read properties of null (reading '' @ [CHR 0x27] @ ''slice''
                               @ [CHR 0x27] @ '')''))
           | _ \<Rightarrow> Inl (TypeError ''content.slice is not a function'')))"

text \<open>
  The effect that runs when \<^verbatim>\<open>messages\<close> or \<^verbatim>\<open>currentSessionId\<close> has changed; \<open>now1\<close> and
  \<open>now2\<close> are its two readings of \<^verbatim>\<open>Date.now()\<close>.
\<close>

definition persistMessages :: "int \<Rightarrow> int \<Rightarrow> ChatState \<Rightarrow> store \<Rightarrow> js_error + store" where
  "persistMessages now1 now2 s db =
     (if messages s = [] then Inr db
      else (case sessionTitle (messages s) of
              Inl e \<Rightarrow> Inl e
            | Inr t \<Rightarrow>
                Inr (saveChatSession
                       \<lparr>session_id = currentSessionId s, title = t,
                        session_messages = messages s,
                        createdAt = now1, updatedAt = now2\<rparr> db)))"

section \<open>Model catalog fetcher\<close>

text \<open>
  The response to the listing request. Its decoded body is typed as the source annotates
  it: the array \<^verbatim>\<open>models\<close> (ollama) or \<^verbatim>\<open>data\<close> (the others) when the body has one,
  each entry with its string \<^verbatim>\<open>name\<close> or \<^verbatim>\<open>id\<close>; \<open>Inl e\<close> when decoding throws \<open>e\<close>.
\<close>

record ListResponse =
  ls_status :: nat
  ls_statusText :: string
  ls_text :: "js_error + string"
  ls_entries :: "js_error + string list option"

datatype list_outcome = ListRejected js_error | ListResolved ListResponse

definition ls_ok :: "ListResponse \<Rightarrow> bool" where
  "ls_ok res = (200 \<le> ls_status res \<and> ls_status res \<le> 299)"

text \<open>The state of the \<^verbatim>\<open>Settings\<close> component that the fetch writes.\<close>

record SettingsState =
  availableModels :: "ModelInfo list"
  loadingModels :: bool
  modelsError :: string

text \<open>
  The body of the inner \<^verbatim>\<open>if (detailRes.ok)\<close>, from the decoded detail to
  \<^verbatim>\<open>supportsReasoning\<close>; \<open>Inl e\<close> when it throws.
\<close>

definition detailSupportsReasoning :: "platform \<Rightarrow> string \<Rightarrow> json \<Rightarrow> js_error + bool" where
  "detailSupportsReasoning plat name detail =
     (case get_prop detail ''modelfile'' of
        Inl e \<Rightarrow> Inl e
      | Inr mf \<Rightarrow>
          (case (case mf of
                   None \<Rightarrow> Inr []
                 | Some JNull \<Rightarrow> Inr []
                 | Some (JStr s) \<Rightarrow> Inr (toLowerCase s)
                 | Some v \<Rightarrow> Inl (TypeError ''detail.modelfile?.toLowerCase is not a function''))
           of
             Inl e \<Rightarrow> Inl e
           | Inr modelfile \<Rightarrow>
               (case get_prop detail ''parameters'' of
                  Inl e \<Rightarrow> Inl e
                | Inr p \<Rightarrow>
                    (let parameters = toLowerCase (JSON_stringify plat (js_or p (JObj [])))
                     in Inr (includes_str modelfile ''reasoning'' \<or>
                             includes_str parameters ''reasoning'' \<or>
                             isReasoningModel (Some name))))))"

text \<open>
  The function mapped over the names: one detail request, whose outcome is \<open>outcome\<close>.
  Whatever is thrown inside its \<^verbatim>\<open>try\<close> is dropped by the empty \<^verbatim>\<open>catch\<close>.
\<close>

definition ollamaModelInfo :: "platform \<Rightarrow> string \<Rightarrow> fetch_outcome \<Rightarrow> ModelInfo" where
  "ollamaModelInfo plat name outcome =
     (let fallback = \<lparr>info_id = name, supportsReasoning = isReasoningModel (Some name)\<rparr> in
      case outcome of
        Rejected e \<Rightarrow> fallback
      | Resolved detailRes \<Rightarrow>
          if ok detailRes then
            (case json_body detailRes of
               Inl e \<Rightarrow> fallback
             | Inr detail \<Rightarrow>
                 (case detailSupportsReasoning plat name detail of
                    Inl e \<Rightarrow> fallback
                  | Inr b \<Rightarrow> \<lparr>info_id = name, supportsReasoning = b\<rparr>))
          else fallback)"

text \<open>
  \<^verbatim>\<open>Promise.all(modelNames.map(...))\<close>: \<open>detailOutcome i\<close> is the outcome of the detail
  request for the \<open>i\<close>-th name.
\<close>

definition ollamaModelInfos :: "platform \<Rightarrow> string list \<Rightarrow> (nat \<Rightarrow> fetch_outcome) \<Rightarrow> ModelInfo list" where
  "ollamaModelInfos plat modelNames detailOutcome =
     map (\<lambda>(i, name). ollamaModelInfo plat name (detailOutcome i)) (enumerate 0 modelNames)"

definition openaiModelInfos :: "string list \<Rightarrow> ModelInfo list" where
  "openaiModelInfos modelIds =
     map (\<lambda>i. \<lparr>info_id = i, supportsReasoning = isReasoningModel (Some i)\<rparr>) modelIds"

text \<open>The \<^verbatim>\<open>try\<close> block of \<^verbatim>\<open>fetchModels\<close> up to \<^verbatim>\<open>modelInfos\<close>; \<open>Inl e\<close> when it throws.\<close>

definition tryFetchModels ::
  "platform \<Rightarrow> ApiConfig \<Rightarrow> list_outcome \<Rightarrow> (nat \<Rightarrow> fetch_outcome) \<Rightarrow> js_error + ModelInfo list" where
  "tryFetchModels plat config listOutcome detailOutcome =
     (case listOutcome of
        ListRejected e \<Rightarrow> Inl e
      | ListResolved res \<Rightarrow>
          if \<not> ls_ok res then
            (case ls_text res of
               Inl e \<Rightarrow> Inl e
             | Inr errorText \<Rightarrow>
                 Inl (new_Error (''HTTP '' @ String_of_nat (ls_status res) @ '': ''
                                 @ (if errorText \<noteq> [] then errorText else ls_statusText res))))
          else
            (case ls_entries res of
               Inl e \<Rightarrow> Inl e
             | Inr entries \<Rightarrow>
                 (let names = (case entries of None \<Rightarrow> [] | Some xs \<Rightarrow> xs) in
                  Inr (if provider config = Ollama
                       then ollamaModelInfos plat names detailOutcome
                       else openaiModelInfos names))))"

text \<open>
  The selection after \<^verbatim>\<open>setAvailableModels\<close>: the configuration handed to
  \<^verbatim>\<open>setConfig\<close>, or the configuration as it is when \<^verbatim>\<open>setConfig\<close> is not called.
\<close>

definition selectModel :: "ApiConfig \<Rightarrow> ModelInfo list \<Rightarrow> ApiConfig" where
  "selectModel config modelInfos =
     (case modelInfos of
        [] \<Rightarrow> config
      | first # _ \<Rightarrow>
          if (case model config of
                None \<Rightarrow> True
              | Some m \<Rightarrow> m = [] \<or> m \<notin> set (map info_id modelInfos))
          then config\<lparr>model := Some (info_id first)\<rparr>
          else config)"

definition fetchModels ::
  "platform \<Rightarrow> ApiConfig \<Rightarrow> list_outcome \<Rightarrow> (nat \<Rightarrow> fetch_outcome) \<Rightarrow> SettingsState
     \<Rightarrow> SettingsState \<times> ApiConfig" where
  "fetchModels plat config listOutcome detailOutcome st =
     (case tryFetchModels plat config listOutcome detailOutcome of
        Inr modelInfos \<Rightarrow>
          (st\<lparr>availableModels := modelInfos, loadingModels := False, modelsError := []\<rparr>,
           selectModel config modelInfos)
      | Inl e \<Rightarrow>
          (st\<lparr>availableModels := [], loadingModels := False,
              modelsError := String_of_error e\<rparr>,
           config))"

text \<open>The effect on a change of provider, endpoint or API key.\<close>

definition modelsEffect ::
  "platform \<Rightarrow> ApiConfig \<Rightarrow> list_outcome \<Rightarrow> (nat \<Rightarrow> fetch_outcome) \<Rightarrow> SettingsState
     \<Rightarrow> SettingsState \<times> ApiConfig" where
  "modelsEffect plat config listOutcome detailOutcome st =
     (if endpoint config = [] then (st, config)
      else if provider config = OpenAI \<and> apiKey config = [] then
        (st\<lparr>availableModels := []\<rparr>, config)
      else fetchModels plat config listOutcome detailOutcome st)"

section \<open>Example inputs\<close>

text \<open>A platform for the concrete instances below.\<close>

definition ex_platform :: platform where
  "ex_platform =
     \<lparr>t_error = ''Error: '',
      JSON_stringify = (\<lambda>v. case v of JStr s \<Rightarrow> [CHR 0x22] @ s @ [CHR 0x22] | _ \<Rightarrow> ''{}''),
      ToNumber_object = (\<lambda>v. Inr NaN)\<rparr>"

definition ex_ollama :: ApiConfig where
  "ex_ollama =
     \<lparr>endpoint = ''http://localhost:11434'', apiKey = [], provider = Ollama,
      model = Some ''deepseek-r1:8b'', reasoningEffort = Some High\<rparr>"

definition ex_idle :: ChatState where
  "ex_idle =
     \<lparr>messages = [], input = ''hello'', loading = False, currentSessionId = ''session-1''\<rparr>"

definition ex_sending :: ChatState where
  "ex_sending =
     \<lparr>messages = [userMessage ''hello'' 1000], input = ''again'', loading = True,
      currentSessionId = ''session-1''\<rparr>"

definition ex_clock :: clock where
  "ex_clock = \<lparr>t_user = 1000, t_start = 1000, t_end = 3000, t_catch = 3001\<rparr>"

definition ex_response :: "nat \<Rightarrow> json \<Rightarrow> fetch_outcome" where
  "ex_response code data =
     Resolved \<lparr>status = code, statusText = [], text_body = Inr ''boom'', json_body = Inr data\<rparr>"

definition ex_conversation :: ChatState where
  "ex_conversation =
     \<lparr>messages =
        [userMessage ''hello'' 1000,
         \<lparr>role = ''assistant'', content = JStr ''hi'', msg_model = Some ''llama3'',
          msg_provider = Some Ollama, msg_reasoningEffort = None,
          tokensPerSecond = Some (Num 10), timestamp = Some 3000\<rparr>],
      input = ''more'', loading = False, currentSessionId = ''session-1''\<rparr>"

definition ex_ollama_body :: "rat \<Rightarrow> json" where
  "ex_ollama_body n =
     JObj [(''message'', JObj [(''content'', JStr ''hi'')]), (''eval_count'', JNum n)]"

definition ex_catalog :: list_outcome where
  "ex_catalog =
     ListResolved \<lparr>ls_status = 200, ls_statusText = ''OK'', ls_text = Inr [],
                   ls_entries = Inr (Some [''llama3'', ''phi''])\<rparr>"

definition ex_detail_failed :: fetch_outcome where
  "ex_detail_failed = Rejected (TypeError ''Failed to fetch'')"

definition ex_detail_found :: fetch_outcome where
  "ex_detail_found = ex_response 200 (JObj [(''modelfile'', JStr ''A Reasoning model'')])"

definition ex_details :: "nat \<Rightarrow> fetch_outcome" where
  "ex_details i = (if i = 0 then ex_detail_failed else ex_detail_found)"

definition ex_empty_catalog :: list_outcome where
  "ex_empty_catalog =
     ListResolved \<lparr>ls_status = 200, ls_statusText = ''OK'', ls_text = Inr [],
                   ls_entries = Inr (Some [])\<rparr>"

definition ex_settings :: SettingsState where
  "ex_settings = \<lparr>availableModels = [], loadingModels = True, modelsError = []\<rparr>"

definition ex_first_turn :: ChatState where
  "ex_first_turn =
     \<lparr>messages = [userMessage ''hello'' 1000], input = [], loading = True,
      currentSessionId = ''session-1''\<rparr>"

definition ex_session :: "Message list \<Rightarrow> int \<Rightarrow> int \<Rightarrow> ChatSession" where
  "ex_session msgs created updated =
     \<lparr>session_id = ''session-1'', title = JStr ''hello'', session_messages = msgs,
      createdAt = created, updatedAt = updated\<rparr>"

section \<open>Substring test\<close>

lemma startsWith_iff: "startsWith s k = (\<exists>ss. s = k @ ss)"
  by (induction s k rule: startsWith.induct) auto

lemma includes_str_iff: "includes_str s k = (\<exists>ps ss. s = ps @ k @ ss)"
proof (induction s)
  case Nil
  then show ?case by auto
next
  case (Cons c cs)
  show ?case
  proof
    assume "includes_str (c # cs) k"
    then consider "startsWith (c # cs) k" | "includes_str cs k" by auto
    then show "\<exists>ps ss. c # cs = ps @ k @ ss"
    proof cases
      case 1
      then obtain ss where "c # cs = k @ ss" by (auto simp: startsWith_iff)
      then have "c # cs = [] @ k @ ss" by simp
      then show ?thesis by blast
    next
      case 2
      then obtain ps ss where "cs = ps @ k @ ss" using Cons.IH by auto
      then have "c # cs = (c # ps) @ k @ ss" by simp
      then show ?thesis by blast
    qed
  next
    assume "\<exists>ps ss. c # cs = ps @ k @ ss"
    then obtain ps ss where e: "c # cs = ps @ k @ ss" by blast
    show "includes_str (c # cs) k"
    proof (cases ps)
      case Nil
      with e have "startsWith (c # cs) k" by (auto simp: startsWith_iff)
      then show ?thesis by simp
    next
      case (Cons p ps')
      with e have "cs = ps' @ k @ ss" by simp
      then have "includes_str cs k" using Cons.IH by blast
      then show ?thesis by simp
    qed
  qed
qed

section \<open>Capability detection\<close>

text \<open>
  Claim C2. \<^verbatim>\<open>isReasoningModel\<close> is a total function to the booleans. It is false on an
  absent identifier; on an identifier it is true exactly when the lower-cased identifier
  has one of \<^verbatim>\<open>o1\<close>, \<^verbatim>\<open>reasoning\<close>, \<^verbatim>\<open>gpt-oss\<close>, \<^verbatim>\<open>deepseek-r1\<close> as a substring. It is
  true on \<^verbatim>\<open>O1-preview\<close>, \<^verbatim>\<open>deepseek-r1:8b\<close> and \<^verbatim>\<open>gpt-oss-20b\<close> and false on \<^verbatim>\<open>llama3\<close>.
\<close>

theorem C2_isReasoningModel:
  "isReasoningModel None = False
   \<and> isReasoningModel (Some name) =
       ((\<exists>ps ss. toLowerCase name = ps @ ''o1'' @ ss) \<or>
        (\<exists>ps ss. toLowerCase name = ps @ ''reasoning'' @ ss) \<or>
        (\<exists>ps ss. toLowerCase name = ps @ ''gpt-oss'' @ ss) \<or>
        (\<exists>ps ss. toLowerCase name = ps @ ''deepseek-r1'' @ ss))
   \<and> isReasoningModel (Some ''O1-preview'')
   \<and> isReasoningModel (Some ''deepseek-r1:8b'')
   \<and> isReasoningModel (Some ''gpt-oss-20b'')
   \<and> \<not> isReasoningModel (Some ''llama3'')"
proof -
  have absent: "isReasoningModel None = False"
    by (simp add: isReasoningModel_def)
  have general: "isReasoningModel (Some name) =
       ((\<exists>ps ss. toLowerCase name = ps @ ''o1'' @ ss) \<or>
        (\<exists>ps ss. toLowerCase name = ps @ ''reasoning'' @ ss) \<or>
        (\<exists>ps ss. toLowerCase name = ps @ ''gpt-oss'' @ ss) \<or>
        (\<exists>ps ss. toLowerCase name = ps @ ''deepseek-r1'' @ ss))"
  proof (cases "name = []")
    case True
    then show ?thesis by (simp add: isReasoningModel_def toLowerCase_def)
  next
    case False
    then show ?thesis
      by (simp only: isReasoningModel_def option.case if_False Let_def includes_str_iff)
  qed
  have e1: "isReasoningModel (Some ''O1-preview'')" by code_simp
  have e2: "isReasoningModel (Some ''deepseek-r1:8b'')" by code_simp
  have e3: "isReasoningModel (Some ''gpt-oss-20b'')" by code_simp
  have e4: "\<not> isReasoningModel (Some ''llama3'')" by code_simp
  from absent general e1 e2 e3 e4 show ?thesis by blast
qed

section \<open>Request adapter\<close>

text \<open>
  Claim C1. In the body of the request of a send, \<^verbatim>\<open>think\<close> is present exactly when the
  provider is ollama, the detector accepts the configured model and a reasoning effort is
  set; \<^verbatim>\<open>reasoning_effort\<close> is present exactly when the provider is openai or lmstudio, the
  detector accepts the configured model and a reasoning effort is set; a field that is
  present carries the configured effort. So for gpt4all neither field is ever present.
\<close>

theorem C1_reasoning_parameter:
  "think (body (chatRequest config systemPrompt msgs userInput)) =
     (if provider config = Ollama \<and> isReasoningModel (model config) \<and> reasoningEffort config \<noteq> None
      then reasoningEffort config else None)
   \<and> reasoning_effort (body (chatRequest config systemPrompt msgs userInput)) =
     (if (provider config = OpenAI \<or> provider config = LMStudio)
         \<and> isReasoningModel (model config) \<and> reasoningEffort config \<noteq> None
      then reasoningEffort config else None)"
  by (cases "provider config") (simp_all add: chatRequest_def requestBody_def usedEffort_def)

section \<open>The send guard and the failure path\<close>

text \<open>
  Claim C3. When the input is empty or a send is in progress, \<^verbatim>\<open>sendMessage\<close> returns at
  its guard: the state is unchanged (no user message is appended) and no request is issued.
  Otherwise the send is entered: \<^verbatim>\<open>loading\<close> becomes true, the user message is appended and
  the request is issued. So a send is entered only from the idle state with a non-empty input.
\<close>

theorem C3_send_rejected:
  "(input s = [] \<or> loading s \<longrightarrow>
      sendMessage_begin config systemPrompt now s = (s, None)
      \<and> sendMessage plat config systemPrompt clk outcome s = s)
   \<and> (input s \<noteq> [] \<and> \<not> loading s \<longrightarrow>
        loading (fst (sendMessage_begin config systemPrompt now s))
        \<and> messages (fst (sendMessage_begin config systemPrompt now s))
            = messages s @ [userMessage (input s) now]
        \<and> snd (sendMessage_begin config systemPrompt now s)
            = Some (chatRequest config systemPrompt (messages s) (input s)))
   \<and> (sendMessage_begin config systemPrompt now s \<noteq> (s, None) \<longrightarrow>
        input s \<noteq> [] \<and> \<not> loading s)"
  by (auto simp: sendMessage_begin_def sendMessage_def)

theorem C3_send_rejected_witness:
  "loading ex_sending
   \<and> sendMessage_begin ex_ollama [] 2000 ex_sending = (ex_sending, None)
   \<and> sendMessage ex_platform ex_ollama [] ex_clock (ex_response 200 JNull) ex_sending = ex_sending
   \<and> input ex_idle \<noteq> [] \<and> \<not> loading ex_idle
   \<and> loading (fst (sendMessage_begin ex_ollama [] 1000 ex_idle))
   \<and> snd (sendMessage_begin ex_ollama [] 1000 ex_idle)
        = Some (chatRequest ex_ollama [] [] ''hello'')"
proof -
  have busy: "input ex_sending = [] \<or> loading ex_sending"
    by (simp add: ex_sending_def)
  have idle: "input ex_idle \<noteq> [] \<and> \<not> loading ex_idle"
    by (simp add: ex_idle_def)
  note r = C3_send_rejected [of ex_sending ex_ollama "[]" 2000 ex_platform ex_clock "ex_response 200 JNull"]
  note a = C3_send_rejected [of ex_idle ex_ollama "[]" 1000 ex_platform ex_clock "ex_response 200 JNull"]
  from r busy have 1: "sendMessage_begin ex_ollama [] 2000 ex_sending = (ex_sending, None)
      \<and> sendMessage ex_platform ex_ollama [] ex_clock (ex_response 200 JNull) ex_sending = ex_sending"
    by blast
  from a idle have 2: "loading (fst (sendMessage_begin ex_ollama [] 1000 ex_idle))
        \<and> snd (sendMessage_begin ex_ollama [] 1000 ex_idle)
            = Some (chatRequest ex_ollama [] (messages ex_idle) (input ex_idle))"
    by blast
  have 3: "messages ex_idle = []" "input ex_idle = ''hello''" "loading ex_sending"
    by (simp_all add: ex_idle_def ex_sending_def)
  from 1 2 3 idle show ?thesis by simp
qed

lemma tryResponse_Rejected:
  "tryResponse plat config t0 t1 (Rejected e) = Inl e"
  by (simp add: tryResponse_def)

lemma tryResponse_not_ok:
  "\<not> ok res \<Longrightarrow> tryResponse plat config t0 t1 (Resolved res) =
     (case text_body res of
        Inl e \<Rightarrow> Inl e
      | Inr errorText \<Rightarrow> Inl (new_Error (''HTTP '' @ String_of_nat (status res) @ '': '' @ errorText)))"
  by (simp add: tryResponse_def)

lemma role_tryResponse:
  "tryResponse plat config t0 t1 outcome = Inr m \<Longrightarrow> role m = ''assistant''"
  by (auto simp: tryResponse_def split: fetch_outcome.splits sum.splits if_splits)

lemma sendMessage_finish_appends_one:
  "\<exists>m. messages (sendMessage_finish plat config clk outcome s) = messages s @ [m]
       \<and> role m = ''assistant''"
  by (cases "tryResponse plat config (t_start clk) (t_end clk) outcome")
     (auto simp: sendMessage_finish_def errorMessage_def Let_def dest: role_tryResponse)

lemma sendMessage_finish_idle:
  "\<not> loading (sendMessage_finish plat config clk outcome s)"
  by (simp add: sendMessage_finish_def Let_def)

lemma sendMessage_finish_error:
  "tryResponse plat config (t_start clk) (t_end clk) outcome = Inl e \<Longrightarrow>
   sendMessage_finish plat config clk outcome s =
     s\<lparr>messages := messages s @ [errorMessage plat config e (t_catch clk)], loading := False\<rparr>"
  by (simp add: sendMessage_finish_def)

text \<open>
  Claim C4. When \<^verbatim>\<open>fetch\<close> rejects with \<open>e\<close>, or the response is not 2xx (then \<open>e\<close> is the
  error \<^verbatim>\<open>HTTP <status>: <body>\<close>, or what reading the body threw), the send appends exactly
  one message, of role assistant, whose content is \<^verbatim>\<open>t('error')\<close> followed by \<open>String(e)\<close>, and
  \<^verbatim>\<open>loading\<close> is false afterwards. Whatever the outcome, the completion of a send appends
  exactly one assistant message and resets \<^verbatim>\<open>loading\<close>.
\<close>

theorem C4_failed_send:
  "(outcome = Rejected e
    \<or> (outcome = Resolved res \<and> \<not> ok res \<and> text_body res = Inl e)
    \<or> (outcome = Resolved res \<and> \<not> ok res \<and> text_body res = Inr errorText
        \<and> e = new_Error (''HTTP '' @ String_of_nat (status res) @ '': '' @ errorText))
    \<longrightarrow>
      (\<exists>m. messages (sendMessage_finish plat config clk outcome s) = messages s @ [m]
           \<and> role m = ''assistant''
           \<and> content m = JStr (t_error plat @ String_of_error e))
      \<and> \<not> loading (sendMessage_finish plat config clk outcome s)
      \<and> (input s \<noteq> [] \<and> \<not> loading s \<longrightarrow>
           (\<exists>m. messages (sendMessage plat config systemPrompt clk outcome s)
                  = messages s @ [userMessage (input s) (t_user clk), m]
                \<and> role m = ''assistant''
                \<and> content m = JStr (t_error plat @ String_of_error e))
           \<and> \<not> loading (sendMessage plat config systemPrompt clk outcome s)))
   \<and> (\<exists>m. messages (sendMessage_finish plat config clk outcome s) = messages s @ [m]
           \<and> role m = ''assistant'')
   \<and> \<not> loading (sendMessage_finish plat config clk outcome s)"
proof -
  have fail: "tryResponse plat config (t_start clk) (t_end clk) outcome = Inl e"
    if "outcome = Rejected e
        \<or> (outcome = Resolved res \<and> \<not> ok res \<and> text_body res = Inl e)
        \<or> (outcome = Resolved res \<and> \<not> ok res \<and> text_body res = Inr errorText
            \<and> e = new_Error (''HTTP '' @ String_of_nat (status res) @ '': '' @ errorText))"
    using that by (auto simp: tryResponse_Rejected tryResponse_not_ok)
  have fin: "sendMessage_finish plat config clk outcome s' =
        s'\<lparr>messages := messages s' @ [errorMessage plat config e (t_catch clk)], loading := False\<rparr>"
    if "tryResponse plat config (t_start clk) (t_end clk) outcome = Inl e" for s'
    using that by (rule sendMessage_finish_error)
  have em: "role (errorMessage plat config e (t_catch clk)) = ''assistant''
      \<and> content (errorMessage plat config e (t_catch clk)) = JStr (t_error plat @ String_of_error e)"
    by (simp add: errorMessage_def)
  have whole: "sendMessage plat config systemPrompt clk outcome s =
      sendMessage_finish plat config clk outcome
        (s\<lparr>input := [], loading := True, messages := messages s @ [userMessage (input s) (t_user clk)]\<rparr>)"
    if "input s \<noteq> [] \<and> \<not> loading s"
    using that by (simp add: sendMessage_def sendMessage_begin_def)
  show ?thesis
    using fail fin em whole sendMessage_finish_appends_one [of plat config clk outcome s]
      sendMessage_finish_idle [of plat config clk outcome s]
    by (auto simp del: String_of_error.simps)
qed

theorem C4_failed_send_witness:
  "(\<exists>m. messages (sendMessage ex_platform ex_ollama [] ex_clock (ex_response 500 JNull) ex_idle)
          = [userMessage ''hello'' 1000, m]
        \<and> role m = ''assistant''
        \<and> content m = JStr ''Error: Error: HTTP 500: boom'')
   \<and> \<not> loading (sendMessage ex_platform ex_ollama [] ex_clock (ex_response 500 JNull) ex_idle)"
proof -
  let ?res = "\<lparr>status = 500, statusText = [], text_body = Inr ''boom'', json_body = Inr JNull\<rparr>"
  let ?e = "new_Error (''HTTP '' @ String_of_nat (status ?res) @ '': '' @ ''boom'')"
  have n: "String_of_nat 500 = ''500''" by code_simp
  have h: "ex_response 500 JNull = Resolved ?res \<and> \<not> ok ?res \<and> text_body ?res = Inr ''boom''
           \<and> ?e = new_Error (''HTTP '' @ String_of_nat (status ?res) @ '': '' @ ''boom'')"
    by (simp add: ex_response_def ok_def)
  have idle: "input ex_idle \<noteq> [] \<and> \<not> loading ex_idle"
    by (simp add: ex_idle_def)
  from C4_failed_send [of "ex_response 500 JNull" ?e ?res "''boom''" ex_platform ex_ollama ex_clock
        ex_idle "[]"] h idle
  have "(\<exists>m. messages (sendMessage ex_platform ex_ollama [] ex_clock (ex_response 500 JNull) ex_idle)
                  = messages ex_idle @ [userMessage (input ex_idle) (t_user ex_clock), m]
                \<and> role m = ''assistant''
                \<and> content m = JStr (t_error ex_platform @ String_of_error ?e))
           \<and> \<not> loading (sendMessage ex_platform ex_ollama [] ex_clock (ex_response 500 JNull) ex_idle)"
    by blast
  then show ?thesis
    by (simp add: n ex_idle_def ex_clock_def ex_platform_def new_Error_def)
qed

section \<open>The message list of a request\<close>

text \<open>
  Claim C5. The message list in the body of the request that a send issues is: one system
  message when the system prompt is not empty (none otherwise), then the role and content
  of every prior message in their order, then the user message with the input. Its length
  is the number of prior messages plus one, plus one for a system message.
\<close>

theorem C5_message_list:
  "input s \<noteq> [] \<and> \<not> loading s \<longrightarrow>
     (\<exists>req. snd (sendMessage_begin config systemPrompt now s) = Some req
        \<and> rb_messages (body req) =
            (if systemPrompt \<noteq> [] then [\<lparr>api_role = ''system'', api_content = JStr systemPrompt\<rparr>]
             else [])
            @ map (\<lambda>m. \<lparr>api_role = role m, api_content = content m\<rparr>) (messages s)
            @ [\<lparr>api_role = ''user'', api_content = JStr (input s)\<rparr>]
        \<and> length (rb_messages (body req)) =
            (if systemPrompt \<noteq> [] then 1 else 0) + length (messages s) + 1)"
  by (cases "provider config")
     (simp_all add: sendMessage_begin_def chatRequest_def requestBody_def apiMessages_def)

theorem C5_message_list_witness:
  "\<exists>req. snd (sendMessage_begin ex_ollama ''Be brief.'' 4000 ex_conversation) = Some req
     \<and> rb_messages (body req) =
         [\<lparr>api_role = ''system'', api_content = JStr ''Be brief.''\<rparr>,
          \<lparr>api_role = ''user'', api_content = JStr ''hello''\<rparr>,
          \<lparr>api_role = ''assistant'', api_content = JStr ''hi''\<rparr>,
          \<lparr>api_role = ''user'', api_content = JStr ''more''\<rparr>]"
proof -
  have idle: "input ex_conversation \<noteq> [] \<and> \<not> loading ex_conversation"
    by (simp add: ex_conversation_def)
  from C5_message_list [of ex_conversation ex_ollama "''Be brief.''" 4000] idle
  obtain req where
    "snd (sendMessage_begin ex_ollama ''Be brief.'' 4000 ex_conversation) = Some req"
    "rb_messages (body req) =
       (if ''Be brief.'' \<noteq> [] then [\<lparr>api_role = ''system'', api_content = JStr ''Be brief.''\<rparr>]
        else [])
       @ map (\<lambda>m. \<lparr>api_role = role m, api_content = content m\<rparr>) (messages ex_conversation)
       @ [\<lparr>api_role = ''user'', api_content = JStr (input ex_conversation)\<rparr>]"
    by blast
  then show ?thesis
    by (simp add: ex_conversation_def userMessage_def)
qed

section \<open>Response adapter\<close>

lemma aiMsg_not_null: "data \<noteq> JNull \<Longrightarrow> \<exists>c. aiMsg config data = Inr c"
  by (cases data) (simp_all add: aiMsg_def)

lemma totalTokens_not_null: "totalTokens config data = Inr tokens \<Longrightarrow> data \<noteq> JNull"
  by (auto simp: totalTokens_def split: if_splits)

lemma tryResponse_ok:
  "ok res \<Longrightarrow> json_body res = Inr data \<Longrightarrow> aiMsg config data = Inr c \<Longrightarrow>
   totalTokens config data = Inr tokens \<Longrightarrow>
   tokensPerSecond_of plat tokens (elapsedSeconds startTime endTime) = Inr tps \<Longrightarrow>
   tryResponse plat config startTime endTime (Resolved res) =
     Inr \<lparr>role = ''assistant'', content = c, msg_model = Some (usedModel config),
          msg_provider = Some (provider config), msg_reasoningEffort = usedEffort config,
          tokensPerSecond = tps, timestamp = Some endTime\<rparr>"
  by (simp add: tryResponse_def)

lemma tokensPerSecond_of_number:
  "tokens = None \<or> tokens = Some (JNum n) \<Longrightarrow>
   tokensPerSecond_of plat tokens e =
     Inr (if tokens = Some (JNum n) \<and> n \<noteq> 0 \<and> 0 < e then Some (Num (n / e)) else None)"
  by (auto simp: tokensPerSecond_of_def)

text \<open>
  Claim C6, as amended. For a 2xx response whose token count (\<^verbatim>\<open>eval_count\<close> for ollama,
  \<^verbatim>\<open>usage.total_tokens\<close> otherwise) is absent or a number \<open>n\<close>, the assistant message is
  produced and its \<^verbatim>\<open>tokensPerSecond\<close> is set exactly when the count is present and not zero
  and the elapsed seconds are positive; it is then \<open>n\<close> divided by the elapsed seconds.
  Whenever it is set the divisor is positive, and the value is not negative when \<open>n\<close> is not
  negative. For ollama, 20 tokens in 2 seconds give 10.
\<close>

theorem C6_tokensPerSecond:
  "(ok res \<and> json_body res = Inr data \<and> totalTokens config data = Inr tokens
      \<and> (tokens = None \<or> tokens = Some (JNum n)) \<longrightarrow>
      (\<exists>m. tryResponse plat config startTime endTime (Resolved res) = Inr m
         \<and> tokensPerSecond m =
             (if tokens = Some (JNum n) \<and> n \<noteq> 0 \<and> 0 < elapsedSeconds startTime endTime
              then Some (Num (n / elapsedSeconds startTime endTime)) else None)
         \<and> (tokensPerSecond m \<noteq> None \<longrightarrow> 0 < elapsedSeconds startTime endTime)
         \<and> (0 \<le> n \<longrightarrow>
               tokensPerSecond m = None \<or> (\<exists>q. tokensPerSecond m = Some (Num q) \<and> 0 \<le> q))))
   \<and> totalTokens config (JObj kvs) =
       Inr (if provider config = Ollama then map_of kvs ''eval_count''
            else opt_get (map_of kvs ''usage'') ''total_tokens'')
   \<and> tryResponse ex_platform ex_ollama 1000 3000
         (ex_response 200 (JObj [(''message'', JObj [(''content'', JStr ''hi'')]),
                                 (''eval_count'', JNum 20)])) =
       Inr \<lparr>role = ''assistant'', content = JStr ''hi'', msg_model = Some ''deepseek-r1:8b'',
            msg_provider = Some Ollama, msg_reasoningEffort = Some High,
            tokensPerSecond = Some (Num 10), timestamp = Some 3000\<rparr>"
proof -
  let ?el = "elapsedSeconds startTime endTime"
  let ?tps = "if tokens = Some (JNum n) \<and> n \<noteq> 0 \<and> 0 < ?el then Some (Num (n / ?el)) else None"
  have main: "\<exists>m. tryResponse plat config startTime endTime (Resolved res) = Inr m
         \<and> tokensPerSecond m = ?tps
         \<and> (tokensPerSecond m \<noteq> None \<longrightarrow> 0 < ?el)
         \<and> (0 \<le> n \<longrightarrow>
               tokensPerSecond m = None \<or> (\<exists>q. tokensPerSecond m = Some (Num q) \<and> 0 \<le> q))"
    if h: "ok res" "json_body res = Inr data" "totalTokens config data = Inr tokens"
          "tokens = None \<or> tokens = Some (JNum n)"
  proof -
    from h(3) have "data \<noteq> JNull" by (rule totalTokens_not_null)
    then obtain c where c: "aiMsg config data = Inr c"
      using aiMsg_not_null by blast
    have t: "tokensPerSecond_of plat tokens ?el = Inr ?tps"
      using h(4) by (rule tokensPerSecond_of_number)
    have r: "tryResponse plat config startTime endTime (Resolved res) =
        Inr \<lparr>role = ''assistant'', content = c, msg_model = Some (usedModel config),
             msg_provider = Some (provider config), msg_reasoningEffort = usedEffort config,
             tokensPerSecond = ?tps, timestamp = Some endTime\<rparr>"
      using h(1) h(2) c h(3) t by (rule tryResponse_ok)
    have "(?tps \<noteq> None \<longrightarrow> 0 < ?el)
        \<and> (0 \<le> n \<longrightarrow> ?tps = None \<or> (\<exists>q. ?tps = Some (Num q) \<and> 0 \<le> q))"
      by simp
    with r show ?thesis by simp
  qed
  have fields: "totalTokens config (JObj kvs) =
       Inr (if provider config = Ollama then map_of kvs ''eval_count''
            else opt_get (map_of kvs ''usage'') ''total_tokens'')"
    by (simp add: totalTokens_def)
  have example: "tryResponse ex_platform ex_ollama 1000 3000
         (ex_response 200 (JObj [(''message'', JObj [(''content'', JStr ''hi'')]),
                                 (''eval_count'', JNum 20)])) =
       Inr \<lparr>role = ''assistant'', content = JStr ''hi'', msg_model = Some ''deepseek-r1:8b'',
            msg_provider = Some Ollama, msg_reasoningEffort = Some High,
            tokensPerSecond = Some (Num 10), timestamp = Some 3000\<rparr>"
    by code_simp
  from main fields example show ?thesis by blast
qed

theorem C6_tokensPerSecond_witness:
  "\<exists>m. tryResponse ex_platform ex_ollama 1000 3000 (ex_response 200 (ex_ollama_body 20)) = Inr m
      \<and> tokensPerSecond m = Some (Num 10)"
proof -
  let ?res = "\<lparr>status = 200, statusText = [], text_body = Inr ''boom'',
               json_body = Inr (ex_ollama_body 20)\<rparr>"
  have h: "ok ?res \<and> json_body ?res = Inr (ex_ollama_body 20)
      \<and> totalTokens ex_ollama (ex_ollama_body 20) = Inr (Some (JNum 20))
      \<and> (Some (JNum 20) = None \<or> Some (JNum 20) = Some (JNum 20))"
    by (simp add: ok_def totalTokens_def ex_ollama_def ex_ollama_body_def)
  have el: "elapsedSeconds 1000 3000 = 2"
    by (simp add: elapsedSeconds_def)
  from C6_tokensPerSecond [of ?res "ex_ollama_body 20" ex_ollama "Some (JNum 20)" 20
        ex_platform 1000 3000] h
  obtain m where "tryResponse ex_platform ex_ollama 1000 3000 (Resolved ?res) = Inr m"
    "tokensPerSecond m =
       (if Some (JNum 20) = Some (JNum 20) \<and> (20::rat) \<noteq> 0 \<and> 0 < elapsedSeconds 1000 3000
        then Some (Num (20 / elapsedSeconds 1000 3000)) else None)"
    by blast
  then show ?thesis
    by (simp add: el ex_response_def)
qed

text \<open>
  Claim C6 as stated fails at a token count of \<open>-20\<close> in 2 seconds: the message carries
  \<open>-10\<close> tokens per second.
\<close>

theorem C6_negative_counterexample:
  "tryResponse ex_platform ex_ollama 1000 3000 (ex_response 200 (ex_ollama_body (- 20))) =
     Inr \<lparr>role = ''assistant'', content = JStr ''hi'', msg_model = Some ''deepseek-r1:8b'',
          msg_provider = Some Ollama, msg_reasoningEffort = Some High,
          tokensPerSecond = Some (Num (- 10)), timestamp = Some 3000\<rparr>
   \<and> (- 10 :: rat) < 0"
  by code_simp

lemma aiMsg_placeholder:
  "data \<noteq> JNull \<Longrightarrow>
   aiMsg config data =
     Inr (js_or (if provider config = Ollama
                 then opt_get (opt_get (Some data) ''message'') ''content''
                 else opt_get (opt_get (opt_index0 (opt_get (Some data) ''choices'')) ''message'')
                        ''content'')
            (JStr ''(no response)''))"
  by (cases data) (simp_all add: aiMsg_def)

text \<open>
  Claim C7, at the 2xx response whose decoded body is \<^verbatim>\<open>null\<close>: reading
  \<^verbatim>\<open>data.message\<close> (ollama) or \<^verbatim>\<open>data.choices\<close> (the other providers) throws a
  \<^verbatim>\<open>TypeError\<close>, the \<^verbatim>\<open>catch\<close> block takes over, and the assistant message carries the
  error text, not the placeholder \<^verbatim>\<open>(no response)\<close>.
\<close>

theorem C7_null_body:
  "aiMsg ex_ollama JNull =
     Inl (TypeError (''Cannot read properties of null (reading '' @ [CHR 0x27] @ ''message''
                     @ [CHR 0x27] @ '')''))
   \<and> aiMsg (ex_ollama\<lparr>provider := OpenAI\<rparr>) JNull =
     Inl (TypeError (''Cannot read properties of null (reading '' @ [CHR 0x27] @ ''choices''
                     @ [CHR 0x27] @ '')''))
   \<and> messages (sendMessage ex_platform ex_ollama [] ex_clock (ex_response 200 JNull) ex_idle) =
       [userMessage ''hello'' 1000,
        errorMessage ex_platform ex_ollama
          (TypeError (''Cannot read properties of null (reading '' @ [CHR 0x27] @ ''message''
                      @ [CHR 0x27] @ '')'')) 3001]
   \<and> content (last (messages
        (sendMessage ex_platform ex_ollama [] ex_clock (ex_response 200 JNull) ex_idle)))
       \<noteq> JStr ''(no response)''"
  by code_simp

section \<open>Catalog enrichment\<close>

lemma info_id_ollamaModelInfo: "info_id (ollamaModelInfo plat name outcome) = name"
  by (simp add: ollamaModelInfo_def Let_def split: fetch_outcome.splits sum.splits)

lemma info_ids_ollamaModelInfos:
  "map info_id (ollamaModelInfos plat names detailOutcome) = names"
proof -
  have "map info_id (ollamaModelInfos plat names detailOutcome) = map snd (enumerate 0 names)"
    by (simp add: ollamaModelInfos_def info_id_ollamaModelInfo split_def comp_def)
  then show ?thesis by simp
qed

lemma nth_ollamaModelInfos:
  "i < length names \<Longrightarrow>
   ollamaModelInfos plat names detailOutcome ! i = ollamaModelInfo plat (names ! i) (detailOutcome i)"
  by (simp add: ollamaModelInfos_def nth_enumerate_eq)

lemma ollama_fallback:
  assumes "outcome = Rejected e
     \<or> (outcome = Resolved r
         \<and> (\<not> ok r \<or> json_body r = Inl e \<or> json_body r = Inr JNull
             \<or> (\<exists>detail v. json_body r = Inr detail
                   \<and> get_prop detail ''modelfile'' = Inr (Some v)
                   \<and> v \<noteq> JNull \<and> (\<forall>s. v \<noteq> JStr s))))"
  shows "supportsReasoning (ollamaModelInfo plat name outcome) = isReasoningModel (Some name)"
proof -
  have bad: "detailSupportsReasoning plat name detail
      = Inl (TypeError ''detail.modelfile?.toLowerCase is not a function'')"
    if "get_prop detail ''modelfile'' = Inr (Some v)" "v \<noteq> JNull" "\<forall>s. v \<noteq> JStr s"
    for detail v
    using that by (cases v) (simp_all add: detailSupportsReasoning_def)
  from assms consider "outcome = Rejected e" | "outcome = Resolved r" "\<not> ok r"
    | "outcome = Resolved r" "json_body r = Inl e"
    | "outcome = Resolved r" "json_body r = Inr JNull"
    | detail v where "outcome = Resolved r" "json_body r = Inr detail"
        "get_prop detail ''modelfile'' = Inr (Some v)" "v \<noteq> JNull" "\<forall>s. v \<noteq> JStr s"
    by blast
  then show ?thesis
  proof cases
    case 1
    then show ?thesis by (simp add: ollamaModelInfo_def)
  next
    case 2
    then show ?thesis by (simp add: ollamaModelInfo_def Let_def)
  next
    case 3
    then show ?thesis by (simp add: ollamaModelInfo_def Let_def)
  next
    case 4
    then show ?thesis by (simp add: ollamaModelInfo_def Let_def detailSupportsReasoning_def)
  next
    case 5
    from bad [OF 5(3) 5(4) 5(5)] 5(1) 5(2) show ?thesis
      by (simp add: ollamaModelInfo_def Let_def)
  qed
qed

lemma ollama_extended:
  assumes "outcome = Resolved r" "ok r" "json_body r = Inr detail" "detail \<noteq> JNull"
    and "opt_get (Some detail) ''modelfile'' = Some (JStr mf)
         \<or> ((opt_get (Some detail) ''modelfile'' = None
              \<or> opt_get (Some detail) ''modelfile'' = Some JNull) \<and> mf = [])"
  shows "supportsReasoning (ollamaModelInfo plat name outcome) =
     (includes_str (toLowerCase mf) ''reasoning''
      \<or> includes_str (toLowerCase (JSON_stringify plat
            (js_or (opt_get (Some detail) ''parameters'') (JObj [])))) ''reasoning''
      \<or> isReasoningModel (Some name))"
proof -
  have g: "get_prop detail key = Inr (opt_get (Some detail) key)" for key
    using assms(4) by (cases detail) simp_all
  have "detailSupportsReasoning plat name detail =
     Inr (includes_str (toLowerCase mf) ''reasoning''
      \<or> includes_str (toLowerCase (JSON_stringify plat
            (js_or (opt_get (Some detail) ''parameters'') (JObj [])))) ''reasoning''
      \<or> isReasoningModel (Some name))"
    using assms(5) by (auto simp: detailSupportsReasoning_def g Let_def toLowerCase_def)
  then show ?thesis
    using assms(1-3) by (simp add: ollamaModelInfo_def Let_def)
qed

lemma tryFetchModels_ollama:
  "provider config = Ollama \<Longrightarrow> ls_ok res \<Longrightarrow> ls_entries res = Inr (Some names) \<Longrightarrow>
   tryFetchModels plat config (ListResolved res) detailOutcome =
     Inr (ollamaModelInfos plat names detailOutcome)"
  by (simp add: tryFetchModels_def)

text \<open>
  Claim C8. For an ollama catalog whose listing succeeded with the names \<open>names\<close>, the fetch
  returns one entry per name, in the order of the names, whatever the outcomes of the
  detail requests. The entry of a name whose detail request was rejected, was answered
  with a status outside 2xx, could not be decoded, decoded to \<^verbatim>\<open>null\<close> or carries a
  \<^verbatim>\<open>modelfile\<close> that is neither absent, \<^verbatim>\<open>null\<close> nor a string, is classified by
  \<^verbatim>\<open>isReasoningModel\<close> on the name alone. The entry of a name whose detail request succeeded
  is classified as reasoning-capable exactly when the lower-cased \<^verbatim>\<open>modelfile\<close> or the
  lower-cased JSON text of \<^verbatim>\<open>parameters\<close> contains \<^verbatim>\<open>reasoning\<close>, or \<^verbatim>\<open>isReasoningModel\<close>
  accepts the name.
\<close>

theorem C8_detail_lookup_isolated:
  "(provider config = Ollama \<and> ls_ok res \<and> ls_entries res = Inr (Some names) \<longrightarrow>
      tryFetchModels plat config (ListResolved res) detailOutcome =
        Inr (ollamaModelInfos plat names detailOutcome))
   \<and> map info_id (ollamaModelInfos plat names detailOutcome) = names
   \<and> (\<forall>i. i < length names \<longrightarrow>
         ollamaModelInfos plat names detailOutcome ! i =
           ollamaModelInfo plat (names ! i) (detailOutcome i))
   \<and> info_id (ollamaModelInfo plat name outcome) = name
   \<and> (outcome = Rejected e
        \<or> (outcome = Resolved r
            \<and> (\<not> ok r \<or> json_body r = Inl e \<or> json_body r = Inr JNull
                \<or> (\<exists>d v. json_body r = Inr d
                      \<and> get_prop d ''modelfile'' = Inr (Some v)
                      \<and> v \<noteq> JNull \<and> (\<forall>s. v \<noteq> JStr s))))
        \<longrightarrow> supportsReasoning (ollamaModelInfo plat name outcome) = isReasoningModel (Some name))
   \<and> (outcome = Resolved r \<and> ok r \<and> json_body r = Inr detail \<and> detail \<noteq> JNull
        \<and> (opt_get (Some detail) ''modelfile'' = Some (JStr mf)
             \<or> ((opt_get (Some detail) ''modelfile'' = None
                  \<or> opt_get (Some detail) ''modelfile'' = Some JNull) \<and> mf = []))
        \<longrightarrow> supportsReasoning (ollamaModelInfo plat name outcome) =
              ((\<exists>ps ss. toLowerCase mf = ps @ ''reasoning'' @ ss)
               \<or> (\<exists>ps ss. toLowerCase (JSON_stringify plat
                        (js_or (opt_get (Some detail) ''parameters'') (JObj [])))
                      = ps @ ''reasoning'' @ ss)
               \<or> isReasoningModel (Some name)))"
proof -
  have 1: "provider config = Ollama \<and> ls_ok res \<and> ls_entries res = Inr (Some names) \<longrightarrow>
      tryFetchModels plat config (ListResolved res) detailOutcome =
        Inr (ollamaModelInfos plat names detailOutcome)"
    by (simp add: tryFetchModels_ollama)
  have 2: "\<forall>i. i < length names \<longrightarrow>
         ollamaModelInfos plat names detailOutcome ! i =
           ollamaModelInfo plat (names ! i) (detailOutcome i)"
    by (simp add: nth_ollamaModelInfos)
  have 3: "outcome = Rejected e
        \<or> (outcome = Resolved r
            \<and> (\<not> ok r \<or> json_body r = Inl e \<or> json_body r = Inr JNull
                \<or> (\<exists>d v. json_body r = Inr d
                      \<and> get_prop d ''modelfile'' = Inr (Some v)
                      \<and> v \<noteq> JNull \<and> (\<forall>s. v \<noteq> JStr s))))
        \<longrightarrow> supportsReasoning (ollamaModelInfo plat name outcome) = isReasoningModel (Some name)"
    by (intro impI ollama_fallback)
  have 4: "outcome = Resolved r \<and> ok r \<and> json_body r = Inr detail \<and> detail \<noteq> JNull
        \<and> (opt_get (Some detail) ''modelfile'' = Some (JStr mf)
             \<or> ((opt_get (Some detail) ''modelfile'' = None
                  \<or> opt_get (Some detail) ''modelfile'' = Some JNull) \<and> mf = []))
        \<longrightarrow> supportsReasoning (ollamaModelInfo plat name outcome) =
              ((\<exists>ps ss. toLowerCase mf = ps @ ''reasoning'' @ ss)
               \<or> (\<exists>ps ss. toLowerCase (JSON_stringify plat
                        (js_or (opt_get (Some detail) ''parameters'') (JObj [])))
                      = ps @ ''reasoning'' @ ss)
               \<or> isReasoningModel (Some name))"
  proof
    assume h: "outcome = Resolved r \<and> ok r \<and> json_body r = Inr detail \<and> detail \<noteq> JNull
        \<and> (opt_get (Some detail) ''modelfile'' = Some (JStr mf)
             \<or> ((opt_get (Some detail) ''modelfile'' = None
                  \<or> opt_get (Some detail) ''modelfile'' = Some JNull) \<and> mf = []))"
    from h have h1: "outcome = Resolved r" and h2: "ok r" and h3: "json_body r = Inr detail"
      and h4: "detail \<noteq> JNull"
      and h5: "opt_get (Some detail) ''modelfile'' = Some (JStr mf)
             \<or> ((opt_get (Some detail) ''modelfile'' = None
                  \<or> opt_get (Some detail) ''modelfile'' = Some JNull) \<and> mf = [])"
      by blast+
    from ollama_extended [OF h1 h2 h3 h4 h5, of plat name]
    show "supportsReasoning (ollamaModelInfo plat name outcome) =
              ((\<exists>ps ss. toLowerCase mf = ps @ ''reasoning'' @ ss)
               \<or> (\<exists>ps ss. toLowerCase (JSON_stringify plat
                        (js_or (opt_get (Some detail) ''parameters'') (JObj [])))
                      = ps @ ''reasoning'' @ ss)
               \<or> isReasoningModel (Some name))"
      by (simp only: includes_str_iff)
  qed
  note ids = info_ids_ollamaModelInfos [of plat names detailOutcome]
  note idn = info_id_ollamaModelInfo [of plat name outcome]
  from conjI [OF 1 conjI [OF ids conjI [OF 2 conjI [OF idn conjI [OF 3 4]]]]]
  show ?thesis .
qed

theorem C8_detail_lookup_isolated_witness:
  "tryFetchModels ex_platform ex_ollama ex_catalog ex_details =
     Inr (ollamaModelInfos ex_platform [''llama3'', ''phi''] ex_details)
   \<and> map info_id (ollamaModelInfos ex_platform [''llama3'', ''phi''] ex_details)
       = [''llama3'', ''phi'']
   \<and> supportsReasoning (ollamaModelInfos ex_platform [''llama3'', ''phi''] ex_details ! 0) = False
   \<and> supportsReasoning (ollamaModelInfos ex_platform [''llama3'', ''phi''] ex_details ! 1) = True"
proof -
  let ?res = "\<lparr>ls_status = 200, ls_statusText = ''OK'', ls_text = Inr [],
               ls_entries = Inr (Some [''llama3'', ''phi''])\<rparr>"
  let ?names = "[''llama3'', ''phi'']"
  let ?detail = "JObj [(''modelfile'', JStr ''A Reasoning model'')]"
  let ?r = "\<lparr>status = 200, statusText = [], text_body = Inr ''boom'', json_body = Inr ?detail\<rparr>"
  have list: "provider ex_ollama = Ollama \<and> ls_ok ?res \<and> ls_entries ?res = Inr (Some ?names)"
    by (simp add: ex_ollama_def ls_ok_def)
  have failed: "ex_details 0 = Rejected (TypeError ''Failed to fetch'')"
    by (simp add: ex_details_def ex_detail_failed_def)
  have found: "ex_details 1 = Resolved ?r \<and> ok ?r \<and> json_body ?r = Inr ?detail \<and> ?detail \<noteq> JNull
      \<and> (opt_get (Some ?detail) ''modelfile'' = Some (JStr ''A Reasoning model'')
           \<or> ((opt_get (Some ?detail) ''modelfile'' = None
                \<or> opt_get (Some ?detail) ''modelfile'' = Some JNull) \<and> ''A Reasoning model'' = []))"
    by (simp add: ex_details_def ex_detail_found_def ex_response_def ok_def)
  have n0: "\<not> isReasoningModel (Some ''llama3'')" by code_simp
  have inc: "includes_str (toLowerCase ''A Reasoning model'') ''reasoning''" by code_simp
  note a = C8_detail_lookup_isolated [where config = ex_ollama and res = ?res and names = ?names
      and plat = ex_platform and detailOutcome = ex_details and name = "''llama3''"
      and outcome = "ex_details 0" and e = "TypeError ''Failed to fetch''"]
  note b = C8_detail_lookup_isolated [where config = ex_ollama and res = ?res and names = ?names
      and plat = ex_platform and detailOutcome = ex_details and name = "''phi''"
      and outcome = "ex_details 1" and r = ?r and detail = ?detail and mf = "''A Reasoning model''"]
  note a1 = a [THEN conjunct1]
  note a2 = a [THEN conjunct2, THEN conjunct1]
  note a3 = a [THEN conjunct2, THEN conjunct2, THEN conjunct1]
  note a5 = a [THEN conjunct2, THEN conjunct2, THEN conjunct2, THEN conjunct2, THEN conjunct1]
  note b6 = b [THEN conjunct2, THEN conjunct2, THEN conjunct2, THEN conjunct2, THEN conjunct2]
  from a1 [THEN mp, OF list]
  have t: "tryFetchModels ex_platform ex_ollama (ListResolved ?res) ex_details =
        Inr (ollamaModelInfos ex_platform ?names ex_details)" .
  from a2 have ids: "map info_id (ollamaModelInfos ex_platform ?names ex_details) = ?names" .
  from a3 have nth: "\<forall>i. i < length ?names \<longrightarrow>
      ollamaModelInfos ex_platform ?names ex_details ! i =
        ollamaModelInfo ex_platform (?names ! i) (ex_details i)" .
  from a5 failed have c0: "supportsReasoning (ollamaModelInfo ex_platform ''llama3'' (ex_details 0))
      = isReasoningModel (Some ''llama3'')"
    by simp
  have inc': "\<exists>ps ss. toLowerCase ''A Reasoning model'' = ps @ ''reasoning'' @ ss"
    using inc by (simp only: includes_str_iff)
  from b6 [THEN mp, OF found] inc'
  have c1: "supportsReasoning (ollamaModelInfo ex_platform ''phi'' (ex_details 1))"
    by simp
  from nth have n: "ollamaModelInfos ex_platform ?names ex_details ! 0 =
        ollamaModelInfo ex_platform ''llama3'' (ex_details 0)"
     "ollamaModelInfos ex_platform ?names ex_details ! 1 =
        ollamaModelInfo ex_platform ''phi'' (ex_details 1)"
    by simp_all
  from t ids n c0 c1 n0 show ?thesis
    by (simp add: ex_catalog_def)
qed

section \<open>Model selection after a catalog fetch\<close>

lemma info_ids_openaiModelInfos: "map info_id (openaiModelInfos modelIds) = modelIds"
  by (simp add: openaiModelInfos_def comp_def)

lemma tryFetchModels_ids:
  assumes "ls_ok res" "ls_entries res = Inr (Some names)"
  shows "\<exists>infos. tryFetchModels plat config (ListResolved res) detailOutcome = Inr infos
           \<and> map info_id infos = names"
  using assms
  by (simp add: tryFetchModels_def info_ids_ollamaModelInfos info_ids_openaiModelInfos)

lemma selectModel_update:
  assumes "infos = first # others"
    and "model config = None \<or> model config = Some []
         \<or> (\<exists>m. model config = Some m \<and> m \<notin> set (map info_id infos))"
  shows "selectModel config infos = config\<lparr>model := Some (info_id first)\<rparr>"
  using assms by (auto simp: selectModel_def)

lemma selectModel_keep:
  assumes "infos = [] \<or> (\<exists>m. model config = Some m \<and> m \<noteq> [] \<and> m \<in> set (map info_id infos))"
  shows "selectModel config infos = config"
  using assms by (cases infos) (auto simp: selectModel_def)

lemma fetchModels_success:
  "tryFetchModels plat config listOutcome detailOutcome = Inr infos \<Longrightarrow>
   fetchModels plat config listOutcome detailOutcome st =
     (st\<lparr>availableModels := infos, loadingModels := False, modelsError := []\<rparr>,
      selectModel config infos)"
  by (simp add: fetchModels_def)

text \<open>
  Claim C9, as amended. After a successful catalog fetch that returns at least one model,
  a configured model that is absent, empty or not among the returned identifiers is
  replaced by the identifier of the first returned entry, and nothing else of the
  configuration changes; when the catalog is empty, or the configured model is not empty
  and is among the returned identifiers, the configuration is left as it is. The returned
  identifiers are those of the listing response, in its order.
\<close>

theorem C9_model_selection:
  "(tryFetchModels plat config listOutcome detailOutcome = Inr infos \<longrightarrow>
      availableModels (fst (fetchModels plat config listOutcome detailOutcome st)) = infos
      \<and> (infos = first # others
           \<and> (model config = None \<or> model config = Some []
               \<or> (\<exists>m. model config = Some m \<and> m \<notin> set (map info_id infos)))
          \<longrightarrow> snd (fetchModels plat config listOutcome detailOutcome st)
                = config\<lparr>model := Some (info_id first)\<rparr>)
      \<and> (infos = []
           \<or> (\<exists>m. model config = Some m \<and> m \<noteq> [] \<and> m \<in> set (map info_id infos))
          \<longrightarrow> snd (fetchModels plat config listOutcome detailOutcome st) = config))
   \<and> (ls_ok res \<and> ls_entries res = Inr (Some names) \<longrightarrow>
        (\<exists>ms. tryFetchModels plat config (ListResolved res) detailOutcome = Inr ms
              \<and> map info_id ms = names))"
proof -
  have a: "availableModels (fst (fetchModels plat config listOutcome detailOutcome st)) = infos
      \<and> (infos = first # others
           \<and> (model config = None \<or> model config = Some []
               \<or> (\<exists>m. model config = Some m \<and> m \<notin> set (map info_id infos)))
          \<longrightarrow> snd (fetchModels plat config listOutcome detailOutcome st)
                = config\<lparr>model := Some (info_id first)\<rparr>)
      \<and> (infos = []
           \<or> (\<exists>m. model config = Some m \<and> m \<noteq> [] \<and> m \<in> set (map info_id infos))
          \<longrightarrow> snd (fetchModels plat config listOutcome detailOutcome st) = config)"
    if ok: "tryFetchModels plat config listOutcome detailOutcome = Inr infos"
  proof (intro conjI impI)
    show "availableModels (fst (fetchModels plat config listOutcome detailOutcome st)) = infos"
      by (simp add: fetchModels_success [OF ok])
  next
    assume "infos = first # others
           \<and> (model config = None \<or> model config = Some []
               \<or> (\<exists>m. model config = Some m \<and> m \<notin> set (map info_id infos)))"
    then have "selectModel config infos = config\<lparr>model := Some (info_id first)\<rparr>"
      using selectModel_update [of infos first others config] by blast
    then show "snd (fetchModels plat config listOutcome detailOutcome st)
                = config\<lparr>model := Some (info_id first)\<rparr>"
      by (simp add: fetchModels_success [OF ok])
  next
    assume "infos = []
           \<or> (\<exists>m. model config = Some m \<and> m \<noteq> [] \<and> m \<in> set (map info_id infos))"
    then have "selectModel config infos = config"
      by (rule selectModel_keep)
    then show "snd (fetchModels plat config listOutcome detailOutcome st) = config"
      by (simp add: fetchModels_success [OF ok])
  qed
  have b: "ls_ok res \<and> ls_entries res = Inr (Some names) \<longrightarrow>
        (\<exists>ms. tryFetchModels plat config (ListResolved res) detailOutcome = Inr ms
              \<and> map info_id ms = names)"
    using tryFetchModels_ids [of res names plat config detailOutcome] by blast
  from a b show ?thesis by blast
qed

theorem C9_model_selection_witness:
  "snd (fetchModels ex_platform ex_ollama ex_catalog ex_details ex_settings)
     = ex_ollama\<lparr>model := Some ''llama3''\<rparr>
   \<and> snd (fetchModels ex_platform (ex_ollama\<lparr>model := Some ''phi''\<rparr>) ex_catalog ex_details
            ex_settings)
     = ex_ollama\<lparr>model := Some ''phi''\<rparr>"
proof -
  let ?first = "\<lparr>info_id = ''llama3'', supportsReasoning = False\<rparr>"
  let ?others = "[\<lparr>info_id = ''phi'', supportsReasoning = True\<rparr>]"
  let ?infos = "?first # ?others"
  let ?chosen = "ex_ollama\<lparr>model := Some ''phi''\<rparr>"
  have t1: "tryFetchModels ex_platform ex_ollama ex_catalog ex_details = Inr ?infos"
    by code_simp
  have t2: "tryFetchModels ex_platform ?chosen ex_catalog ex_details = Inr ?infos"
    by code_simp
  have absent: "?infos = ?first # ?others
      \<and> (model ex_ollama = None \<or> model ex_ollama = Some []
          \<or> (\<exists>m. model ex_ollama = Some m \<and> m \<notin> set (map info_id ?infos)))"
    by (simp add: ex_ollama_def)
  have present: "?infos = []
      \<or> (\<exists>m. model ?chosen = Some m \<and> m \<noteq> [] \<and> m \<in> set (map info_id ?infos))"
    by simp
  note a = C9_model_selection [where plat = ex_platform and config = ex_ollama
      and listOutcome = ex_catalog and detailOutcome = ex_details and infos = ?infos
      and first = ?first and others = ?others and st = ex_settings, THEN conjunct1, THEN mp, OF t1]
  note b = C9_model_selection [where plat = ex_platform and config = ?chosen
      and listOutcome = ex_catalog and detailOutcome = ex_details and infos = ?infos
      and first = ?first and others = ?others and st = ex_settings, THEN conjunct1, THEN mp, OF t2]
  from a [THEN conjunct2, THEN conjunct1, THEN mp, OF absent]
  have 1: "snd (fetchModels ex_platform ex_ollama ex_catalog ex_details ex_settings)
     = ex_ollama\<lparr>model := Some (info_id ?first)\<rparr>" .
  from b [THEN conjunct2, THEN conjunct2, THEN mp, OF present]
  have 2: "snd (fetchModels ex_platform ?chosen ex_catalog ex_details ex_settings) = ?chosen" .
  from 1 2 show ?thesis by simp
qed

text \<open>
  Claim C9 as stated fails at a successful fetch that returns the empty catalog: the
  configured model is not among the returned identifiers, and the configuration is not
  changed.
\<close>

theorem C9_empty_catalog_counterexample:
  "fetchModels ex_platform ex_ollama ex_empty_catalog ex_details ex_settings =
     (\<lparr>availableModels = [], loadingModels = False, modelsError = []\<rparr>, ex_ollama)
   \<and> model ex_ollama = Some ''deepseek-r1:8b''
   \<and> ''deepseek-r1:8b'' \<notin> set (map info_id
         (availableModels (fst (fetchModels ex_platform ex_ollama ex_empty_catalog ex_details
            ex_settings))))"
  by code_simp

section \<open>Persisting a session\<close>

lemma persistMessages_record:
  assumes "messages s \<noteq> []" "persistMessages now1 now2 s db = Inr db'"
  shows "\<exists>t. db' (currentSessionId s) =
           Some \<lparr>session_id = currentSessionId s, title = t, session_messages = messages s,
                 createdAt = now1, updatedAt = now2\<rparr>"
  using assms
  by (auto simp: persistMessages_def saveChatSession_def split: sum.splits)

text \<open>
  Claim C10, at a session that is saved after its first message at time 1000 and, after the
  reply has been appended, at time 5000: the second record has the same id, and its
  \<^verbatim>\<open>createdAt\<close> is 5000, not the 1000 of the record it replaces.
\<close>

theorem C10_createdAt_rewritten:
  "persistMessages 1000 1001 ex_first_turn Map.empty =
     Inr [''session-1'' \<mapsto> ex_session (messages ex_first_turn) 1000 1001]
   \<and> persistMessages 5000 5001 ex_conversation
        [''session-1'' \<mapsto> ex_session (messages ex_first_turn) 1000 1001] =
     Inr [''session-1'' \<mapsto> ex_session (messages ex_conversation) 5000 5001]
   \<and> createdAt (ex_session (messages ex_conversation) 5000 5001) = 5000
   \<and> createdAt (ex_session (messages ex_first_turn) 1000 1001) = 1000"
  by (simp add: persistMessages_def saveChatSession_def sessionTitle_def ex_first_turn_def
        ex_conversation_def ex_session_def userMessage_def)

end
